theory Spec2Isabelle
  imports Complex_Main
begin

section \<open>Data model\<close>

text \<open>
  A row of the catalogue as \<^verbatim>\<open>load_data\<close> leaves it (\<^verbatim>\<open>src/app.py\<close>, lines 21-37).
  The text columns have pandas dtype \<^verbatim>\<open>string\<close> and \<^verbatim>\<open>track_count\<close> has the
  nullable dtype \<^verbatim>\<open>Int32\<close>, so every cell may be missing: \<open>None\<close> is the missing
  value (\<^verbatim>\<open>pd.NA\<close>, \<^verbatim>\<open>None\<close>, \<^verbatim>\<open>NaN\<close>).  A Python string is a list of
  characters; a \<open>char\<close> stands for the code point of the same number, so the strings of
  the model are the Python strings over U+0000 .. U+00FF.
\<close>

record album =
  artist :: "string option"
  album_title :: "string option"
  year :: "int option"
  label :: "string option"
  track_count :: "int option"
  tracklist :: "string option"
  thumb :: "string option"

section \<open>Errors\<close>

text \<open>
  The exceptions that the modelled code can raise: \<^verbatim>\<open>re.error\<close> from a pattern that
  does not compile, \<^verbatim>\<open>ValueError\<close> from \<^verbatim>\<open>int\<close> and from a sample larger than
  the population, \<^verbatim>\<open>IndexError\<close> from a positional read out of range.  A computation
  that can raise returns \<open>error + 'a\<close>, with \<open>Inl\<close> for the exception.
\<close>

datatype error = RegexError | ValueError | IndexError

definition bind_result :: "error + 'a \<Rightarrow> ('a \<Rightarrow> error + 'b) \<Rightarrow> error + 'b" where
  "bind_result r f = (case r of Inl e \<Rightarrow> Inl e | Inr x \<Rightarrow> f x)"

primrec collect :: "(error + 'a) list \<Rightarrow> error + 'a list" where
  "collect [] = Inr []"
| "collect (r # rs) =
     (case r of
        Inl e \<Rightarrow> Inl e
      | Inr x \<Rightarrow> (case collect rs of Inl e \<Rightarrow> Inl e | Inr xs \<Rightarrow> Inr (x # xs)))"

section \<open>Loading: the year column (lines 34-37)\<close>

text \<open>
  \<^verbatim>\<open>x.replace(',', '')\<close> removes every comma.
\<close>

definition remove_commas :: "string \<Rightarrow> string" where
  "remove_commas x = filter (\<lambda>c. c \<noteq> CHR '','') x"

definition is_ascii_digit :: "char \<Rightarrow> bool" where
  "is_ascii_digit c = (48 \<le> (of_char c :: nat) \<and> (of_char c :: nat) \<le> 57)"

text \<open>
  \<^verbatim>\<open>str.isdigit\<close> holds of a non-empty string all of whose characters are digits in
  the sense of Unicode (Numeric_Type Decimal or Digit).  Up to U+00FF these are the ten
  ASCII digits and the superscripts U+00B2, U+00B3 and U+00B9.
\<close>

definition chr_isdigit :: "char \<Rightarrow> bool" where
  "chr_isdigit c =
     (is_ascii_digit c \<or> (of_char c :: nat) = 178 \<or> (of_char c :: nat) = 179
        \<or> (of_char c :: nat) = 185)"

definition str_isdigit :: "string \<Rightarrow> bool" where
  "str_isdigit s = (s \<noteq> [] \<and> list_all chr_isdigit s)"

text \<open>
  \<^verbatim>\<open>int(s)\<close> for a string without white space, sign or underscore (none of them passes
  \<^verbatim>\<open>isdigit\<close>): the decimal value when every character is a decimal digit (up to
  U+00FF, an ASCII digit), and \<^verbatim>\<open>ValueError\<close> otherwise.
\<close>

definition digit_value :: "char \<Rightarrow> int" where
  "digit_value c = int (of_char c) - 48"

definition py_int :: "string \<Rightarrow> error + int" where
  "py_int s =
     (if s \<noteq> [] \<and> list_all is_ascii_digit s
      then Inr (foldl (\<lambda>acc c. 10 * acc + digit_value c) 0 s)
      else Inl ValueError)"

text \<open>
  The function applied to every cell of the year column:
  \<^verbatim>\<open>lambda x: int(x.replace(',', '')) if pd.notna(x) and x.replace(',', '').isdigit() else None\<close>.
\<close>

definition convert_year :: "string option \<Rightarrow> error + int option" where
  "convert_year x =
     (case x of
        None \<Rightarrow> Inr None
      | Some s \<Rightarrow>
          if str_isdigit (remove_commas s)
          then (case py_int (remove_commas s) of Inl e \<Rightarrow> Inl e | Inr n \<Rightarrow> Inr (Some n))
          else Inr None)"

text \<open>A row as \<^verbatim>\<open>pd.read_csv\<close> delivers it: the year is still text.\<close>

record csv_row =
  csv_artist :: "string option"
  csv_album_title :: "string option"
  csv_year :: "string option"
  csv_label :: "string option"
  csv_track_count :: "int option"
  csv_tracklist :: "string option"
  csv_thumb :: "string option"

definition with_year :: "csv_row \<Rightarrow> int option \<Rightarrow> album" where
  "with_year r y =
     \<lparr>artist = csv_artist r, album_title = csv_album_title r, year = y,
      label = csv_label r, track_count = csv_track_count r,
      tracklist = csv_tracklist r, thumb = csv_thumb r\<rparr>"

text \<open>
  The body of the \<^verbatim>\<open>try\<close> of \<^verbatim>\<open>load_data\<close> after the file is read: the year
  column is replaced by the converted one.  An exception raised by the conversion of any
  cell leaves the \<^verbatim>\<open>try\<close>; the handler reports it and returns a frame without rows
  (\<^verbatim>\<open>pd.DataFrame()\<close>) in place of the catalogue.  \<open>Inl\<close> is that outcome.
\<close>

definition load_data :: "csv_row list \<Rightarrow> error + album list" where
  "load_data csv =
     bind_result (collect (map (\<lambda>r. convert_year (csv_year r)) csv))
       (\<lambda>years. Inr (map2 with_year csv years))"

section \<open>Column predicates and boolean masks\<close>

text \<open>
  The regular expressions are those of Python's \<^verbatim>\<open>re\<close>, which is not part of the
  program: the engine is a parameter.  \<open>re pat\<close> is \<open>None\<close> when \<^verbatim>\<open>re.compile(pat)\<close>
  raises \<^verbatim>\<open>re.error\<close>, and otherwise \<open>Some search\<close>, where \<open>search s\<close> says whether
  \<^verbatim>\<open>re.search(pat, s)\<close> finds a match.
\<close>

type_synonym regex_engine = "string \<Rightarrow> (string \<Rightarrow> bool) option"

text \<open>
  \<^verbatim>\<open>col.str.contains(pat, na=False)\<close>: the pattern is compiled once, whatever the
  column holds; a missing cell gives \<^verbatim>\<open>False\<close>.
\<close>

definition contains_cell :: "(string \<Rightarrow> bool) \<Rightarrow> string option \<Rightarrow> bool" where
  "contains_cell search x = (case x of None \<Rightarrow> False | Some s \<Rightarrow> search s)"

definition str_contains :: "regex_engine \<Rightarrow> string \<Rightarrow> string option list \<Rightarrow> error + bool list" where
  "str_contains re pat col =
     (case re pat of
        None \<Rightarrow> Inl RegexError
      | Some search \<Rightarrow> Inr (map (contains_cell search) col))"

text \<open>
  \<^verbatim>\<open>col.between(left, right)\<close> is \<^verbatim>\<open>(col >= left) & (col <= right)\<close>; a comparison
  with a missing year is \<^verbatim>\<open>False\<close>.
\<close>

definition between_cell :: "int \<Rightarrow> int \<Rightarrow> int option \<Rightarrow> bool" where
  "between_cell left right x = (case x of None \<Rightarrow> False | Some y \<Rightarrow> left \<le> y \<and> y \<le> right)"

definition between :: "int option list \<Rightarrow> int \<Rightarrow> int \<Rightarrow> bool list" where
  "between col left right = map (between_cell left right) col"

definition mask_and :: "bool list \<Rightarrow> bool list \<Rightarrow> bool list" where
  "mask_and m1 m2 = map2 (\<and>) m1 m2"

definition mask_not :: "bool list \<Rightarrow> bool list" where
  "mask_not m = map Not m"

text \<open>\<^verbatim>\<open>data[mask]\<close>: the rows whose mask is \<^verbatim>\<open>True\<close>, in the order of the frame.\<close>

definition select_rows :: "'a list \<Rightarrow> bool list \<Rightarrow> 'a list" where
  "select_rows xs m = map fst (filter snd (zip xs m))"

section \<open>The browse filter (lines 111-118)\<close>

text \<open>
  The six masks are computed from left to right and combined with \<^verbatim>\<open>&\<close>;
  \<^verbatim>\<open>year_filter\<close> is the pair of the slider.
\<close>

definition filtered_data ::
  "regex_engine \<Rightarrow> album list \<Rightarrow> string \<Rightarrow> int \<times> int \<Rightarrow> string \<Rightarrow> string \<Rightarrow> error + album list" where
  "filtered_data re data artist_filter year_filter label_filter track_filter =
     bind_result (str_contains re artist_filter (map artist data)) (\<lambda>m1.
     bind_result (Inr (between (map year data) (fst year_filter) (snd year_filter))) (\<lambda>m2.
     bind_result (str_contains re label_filter (map label data)) (\<lambda>m3.
     bind_result (str_contains re track_filter (map tracklist data)) (\<lambda>m4.
     bind_result (str_contains re ''Various'' (map artist data)) (\<lambda>m5.
     bind_result (str_contains re ''Dee Jay Mix Club|Nielegal'' (map label data)) (\<lambda>m6.
       Inr (select_rows data
             (mask_and (mask_and (mask_and (mask_and (mask_and m1 m2) m3) m4)
                (mask_not m5)) (mask_not m6)))))))))"

section \<open>The discovery sampler (lines 45-58)\<close>

text \<open>
  Lines 48-54: the year range and the two standing exclusions, then the label pattern
  when \<^verbatim>\<open>label_filter\<close> is not empty.
\<close>

definition discover_filter ::
  "regex_engine \<Rightarrow> album list \<Rightarrow> int \<Rightarrow> int \<Rightarrow> string \<Rightarrow> error + album list" where
  "discover_filter re data start_year end_year label_filter =
     bind_result (Inr (between (map year data) start_year end_year)) (\<lambda>m1.
     bind_result (str_contains re ''Various'' (map artist data)) (\<lambda>m2.
     bind_result (str_contains re ''Dee Jay Mix Club|Nielegal'' (map label data)) (\<lambda>m3.
     bind_result (Inr (select_rows data (mask_and (mask_and m1 (mask_not m2)) (mask_not m3))))
       (\<lambda>filtered.
          if label_filter \<noteq> []
          then bind_result (str_contains re label_filter (map label filtered))
                 (\<lambda>m4. Inr (select_rows filtered m4))
          else Inr filtered))))"

text \<open>
  \<^verbatim>\<open>frame.sample(n=n, random_state=r)\<close> asks a generator for \<^verbatim>\<open>n\<close> positions out
  of \<^verbatim>\<open>len(frame)\<close> without replacement and takes the rows at these positions in the
  order drawn.  When \<^verbatim>\<open>r\<close> is an integer the generator is a new one,
  \<^verbatim>\<open>np.random.RandomState(r)\<close>; when \<^verbatim>\<open>r\<close> is \<^verbatim>\<open>None\<close> it is the generator of
  the process, \<^verbatim>\<open>np.random\<close>, which the draw advances.  The generators belong to
  numpy: \<open>'g\<close> is the type of their states, \<open>seeded np r\<close> the state of a new generator
  seeded with \<open>r\<close>, and \<open>draw np g population size\<close> the positions that a generator in
  state \<open>g\<close> draws, with its state after the draw.  A sample larger than the frame is a
  \<^verbatim>\<open>ValueError\<close>, a position outside the frame an \<^verbatim>\<open>IndexError\<close>.
\<close>

record 'g numpy =
  seeded :: "nat \<Rightarrow> 'g"
  draw :: "'g \<Rightarrow> nat \<Rightarrow> nat \<Rightarrow> nat list \<times> 'g"

definition take_rows :: "'a list \<Rightarrow> nat list \<Rightarrow> error + 'a list" where
  "take_rows xs idxs =
     (if list_all (\<lambda>i. i < length xs) idxs then Inr (map (\<lambda>i. xs ! i) idxs)
      else Inl IndexError)"

text \<open>
  The result of \<^verbatim>\<open>sample\<close>, with the state of the generator of the process after the
  call.
\<close>

definition sample_rows ::
  "'g numpy \<Rightarrow> 'g \<Rightarrow> 'a list \<Rightarrow> nat \<Rightarrow> nat option \<Rightarrow> (error + 'a list) \<times> 'g" where
  "sample_rows np g xs n random_state =
     (if length xs < n then (Inl ValueError, g)
      else (case random_state of
              Some r \<Rightarrow> (take_rows xs (fst (draw np (seeded np r) (length xs) n)), g)
            | None \<Rightarrow>
                (case draw np g (length xs) n of (idxs, g') \<Rightarrow> (take_rows xs idxs, g'))))"

text \<open>
  The body of \<^verbatim>\<open>generate_discover_list\<close>, called when the generator of the process is
  in state \<open>g\<close>; \<^verbatim>\<open>reset_index(drop=True)\<close> renumbers the rows and keeps their order.
\<close>

definition generate_discover_list ::
  "regex_engine \<Rightarrow> 'g numpy \<Rightarrow> 'g \<Rightarrow> album list \<Rightarrow> int \<Rightarrow> int \<Rightarrow> string
     \<Rightarrow> (error + album list) \<times> 'g" where
  "generate_discover_list re np g data start_year end_year label_filter =
     (case discover_filter re data start_year end_year label_filter of
        Inl e \<Rightarrow> (Inl e, g)
      | Inr filtered \<Rightarrow> sample_rows np g filtered (min 30 (length filtered)) (Some 42))"

text \<open>
  The decorator \<^verbatim>\<open>@st.cache_data\<close>: a call whose arguments are in the cache returns
  the stored value; otherwise the body runs, and its value is stored unless it raised.
  The result comes with the cache and the state of the generator of the process after the
  call.
\<close>

type_synonym discover_cache = "album list \<times> int \<times> int \<times> string \<Rightarrow> album list option"

definition cached_generate_discover_list ::
  "regex_engine \<Rightarrow> 'g numpy \<Rightarrow> discover_cache \<Rightarrow> 'g \<Rightarrow> album list \<Rightarrow> int \<Rightarrow> int \<Rightarrow> string
     \<Rightarrow> (error + album list) \<times> discover_cache \<times> 'g" where
  "cached_generate_discover_list re np cache g data start_year end_year label_filter =
     (case cache (data, start_year, end_year, label_filter) of
        Some v \<Rightarrow> (Inr v, cache, g)
      | None \<Rightarrow>
          (case generate_discover_list re np g data start_year end_year label_filter of
             (Inl e, g') \<Rightarrow> (Inl e, cache, g')
           | (Inr v, g') \<Rightarrow>
               (Inr v, cache((data, start_year, end_year, label_filter) \<mapsto> v), g')))"

section \<open>Statistics (lines 139 and 161)\<close>




text \<open>
  The frame bound to \<^verbatim>\<open>data\<close>: its rows, and the column \<^verbatim>\<open>decade\<close> once line 139
  has added it (\<open>None\<close> while the frame has no such column).
\<close>

record frame =
  rows :: "album list"
  decade :: "int option list option"


section \<open>Pagination of the result table (lines 124-128)\<close>

definition results_per_page :: int where
  "results_per_page = 20"

text \<open>
  \<^verbatim>\<open>total_pages = -(-len(filtered_data) // results_per_page)\<close>.  Python's \<^verbatim>\<open>//\<close> on
  integers is floor division, which is \<open>div\<close> on \<open>int\<close>.
\<close>

definition total_pages :: "nat \<Rightarrow> int" where
  "total_pages n = - ((- int n) div results_per_page)"

definition start_idx :: "int \<Rightarrow> int" where
  "start_idx page = (page - 1) * results_per_page"

definition end_idx :: "int \<Rightarrow> int" where
  "end_idx page = start_idx page + results_per_page"

section \<open>Calendar layout (lines 61-85)\<close>

text \<open>
  A date is the number of its day; \<^verbatim>\<open>today + timedelta(days=i)\<close> is \<open>today + int i\<close>.
  \<^verbatim>\<open>dates = [today + timedelta(days=i) for i in range(30)]\<close>.
\<close>

definition dates :: "int \<Rightarrow> int list" where
  "dates today = map (\<lambda>i. today + int i) [0..<30]"

text \<open>
  \<^verbatim>\<open>week_data = [dates[i:i + 7] for i in range(0, len(dates), 7)]\<close>: the slice
  \<^verbatim>\<open>dates[i:i + 7]\<close> is \<open>take 7 (drop i dates)\<close>, and \<^verbatim>\<open>range(0, n, 7)\<close> holds the
  multiples \<open>7 * k\<close> below \<open>n\<close>.
\<close>

definition week_data :: "'d list \<Rightarrow> 'd list list" where
  "week_data ds = map (\<lambda>k. take 7 (drop (7 * k) ds)) [0..<(length ds + 6) div 7]"

text \<open>
  The body of the inner loop, for one week: \<^verbatim>\<open>idx\<close> is the position of the date
  within its week (\<^verbatim>\<open>enumerate(week)\<close>), and the cell shows
  \<^verbatim>\<open>discover_data.iloc[idx]\<close> when \<^verbatim>\<open>len(discover_data) > idx\<close>, and
  \<^verbatim>\<open>"Brak albumu"\<close> (no album) otherwise.  A cell is the date with the row shown
  under it; the type of the rows is left open, since the layout only chooses which row
  goes where.
\<close>

definition week_cells :: "'a list \<Rightarrow> 'd list \<Rightarrow> ('d \<times> 'a option) list" where
  "week_cells discover_data week =
     map (\<lambda>(idx, date).
            (date, if length discover_data > idx then Some (discover_data ! idx) else None))
         (enumerate 0 week)"

definition create_interactive_calendar :: "int \<Rightarrow> 'a list \<Rightarrow> (int \<times> 'a option) list list" where
  "create_interactive_calendar today discover_data =
     map (week_cells discover_data) (week_data (dates today))"

section \<open>The tabs of the page\<close>

text \<open>
  The variables of the script that the tabs assign, with the catalogue \<^verbatim>\<open>data\<close>
  among them, the cache of \<^verbatim>\<open>generate_discover_list\<close> and the state of the
  generator of the process.  Each tab is a step from the state before it to the state
  after it, or to the exception that ends the run.
\<close>

record 'g session =
  data :: frame
  filtered :: "album list"
  avg_tracks :: "(int \<times> rat option) list"
  discover_data :: "album list"
  calendar :: "(int \<times> album option) list list"
  cache :: discover_cache
  generator :: 'g




section \<open>A regular-expression engine for patterns without operators but the bar\<close>

text \<open>
  The concrete inputs below need an engine.  This one accepts the patterns that are made
  of ordinary characters and \<^verbatim>\<open>|\<close> only, for which \<^verbatim>\<open>re.search\<close> looks for one of
  the alternatives as a substring; the empty pattern is found in every string.  It refuses
  every pattern with another special character, although the library compiles many of
  them: it is used on patterns of the first kind only.
\<close>

fun is_prefix :: "string \<Rightarrow> string \<Rightarrow> bool" where
  "is_prefix [] s = True"
| "is_prefix (p # ps) [] = False"
| "is_prefix (p # ps) (c # cs) = (p = c \<and> is_prefix ps cs)"

primrec contains_literal :: "string \<Rightarrow> string \<Rightarrow> bool" where
  "contains_literal p [] = (p = [])"
| "contains_literal p (c # cs) = (is_prefix p (c # cs) \<or> contains_literal p cs)"

primrec split_bar :: "string \<Rightarrow> string list" where
  "split_bar [] = [[]]"
| "split_bar (c # cs) =
     (if c = CHR ''|'' then [] # split_bar cs
      else (case split_bar cs of [] \<Rightarrow> [[c]] | alt # alts \<Rightarrow> (c # alt) # alts))"

definition special_chars :: string where
  "special_chars = ''.^$*+?{}[]()'' @ [CHR 0x5C]"

definition literal_search :: "string \<Rightarrow> string \<Rightarrow> bool" where
  "literal_search pat s = list_ex (\<lambda>alt. contains_literal alt s) (split_bar pat)"

definition literal_engine :: regex_engine where
  "literal_engine pat =
     (if list_ex (\<lambda>c. c \<in> set special_chars) pat then None
      else Some (literal_search pat))"


section \<open>Concrete inputs\<close>

text \<open>
  A generator that keeps the contract.  Its state is a number, the seed at first; a draw
  returns the first \<open>k\<close> of the positions from the last to the first, rotated by the state,
  and adds one to the state.
\<close>

definition rotating_numpy :: "nat numpy" where
  "rotating_numpy =
     \<lparr>seeded = (\<lambda>r. r),
      draw = (\<lambda>g n k. (take k (rotate (g mod n) (rev [0..<n])), Suc g))\<rparr>"

definition kaliber :: album where
  "kaliber =
     \<lparr>artist = Some ''Kaliber 44'', album_title = Some ''Spis tresci'', year = Some 1999,
      label = Some ''Gigant Records'', track_count = Some 18,
      tracklist = Some ''Intro|Konfrontacje'', thumb = None\<rparr>"


text \<open>The first album with no track list, with no year, and with no track count.\<close>

definition no_tracklist :: album where
  "no_tracklist = kaliber\<lparr>tracklist := None\<rparr>"

definition no_year :: album where
  "no_year = kaliber\<lparr>year := None\<rparr>"

text \<open>An album whose label is not known.\<close>

definition no_label :: album where
  "no_label = kaliber\<lparr>album_title := Some ''Ksiega Tajemnicza. Prolog'', label := None\<rparr>"



text \<open>
  Two lines of the file that differ in the year only: \<^verbatim>\<open>1,999\<close> in the first, the
  superscript two, U+00B2, in the second.
\<close>

definition plain_row :: csv_row where
  "plain_row =
     \<lparr>csv_artist = Some ''Kaliber 44'', csv_album_title = Some ''Spis tresci'',
      csv_year = Some ''1,999'', csv_label = Some ''Gigant Records'',
      csv_track_count = Some 18, csv_tracklist = Some ''Intro|Konfrontacje'',
      csv_thumb = None\<rparr>"

definition superscript_row :: csv_row where
  "superscript_row =
     \<lparr>csv_artist = Some ''Kaliber 44'', csv_album_title = Some ''Spis tresci'',
      csv_year = Some [CHR 0xB2], csv_label = Some ''Gigant Records'',
      csv_track_count = Some 18, csv_tracklist = Some ''Intro|Konfrontacje'',
      csv_thumb = None\<rparr>"

section \<open>Pagination: results\<close>

lemma total_pages_ceiling: "total_pages n = (int n + 19) div 20"
  unfolding total_pages_def results_per_page_def by linarith

lemma total_pages_positive: "0 < n \<Longrightarrow> 1 \<le> total_pages n"
  unfolding total_pages_ceiling by linarith

text \<open>
  Claim C2.  The number of pages is the ceiling of the number of filtered rows over the
  page size, but it is not floored at one: with no filtered row the code computes zero
  pages, and the page slider is then asked for the range from 1 to 0 with the value 1.
\<close>

theorem total_pages_of_no_results:
  "total_pages 0 = 0 \<and> \<not> 1 \<le> total_pages 0"
  by (simp add: total_pages_def results_per_page_def)

section \<open>Calendar layout: results\<close>

lemma upt_30:
  "[0..<30] = [0, 1, 2, 3, 4, 5, 6, 7, 8, 9, 10, 11, 12, 13, 14, 15, 16, 17, 18, 19, 20,
               21, 22, 23, 24, 25, 26, 27, 28, 29]"
  by code_simp

lemma upt_5: "[0..<5] = [0, 1, 2, 3, 4]"
  by code_simp

lemma length_dates: "length (dates today) = 30"
  by (simp add: dates_def)

lemma dates_weeks:
  "week_data (dates today) =
     [map (\<lambda>i. today + int i) [0, 1, 2, 3, 4, 5, 6],
      map (\<lambda>i. today + int i) [7, 8, 9, 10, 11, 12, 13],
      map (\<lambda>i. today + int i) [14, 15, 16, 17, 18, 19, 20],
      map (\<lambda>i. today + int i) [21, 22, 23, 24, 25, 26, 27],
      map (\<lambda>i. today + int i) [28, 29]]"
proof -
  have "week_data (dates today) = map (\<lambda>k. take 7 (drop (7 * k) (dates today))) [0, 1, 2, 3, 4]"
    unfolding week_data_def length_dates by (simp add: upt_5)
  then show ?thesis by (simp add: dates_def upt_30)
qed

lemma small_numerals:
  "Suc (Suc 0) = 2" "Suc (Suc (Suc 0)) = 3" "Suc (Suc (Suc (Suc 0))) = 4"
  "Suc (Suc (Suc (Suc (Suc 0)))) = 5" "Suc (Suc (Suc (Suc (Suc (Suc 0))))) = 6"
  by simp_all

text \<open>
  What the layout does: the cell of the date of index \<open>i\<close> carries the row of index
  \<open>i mod 7\<close>, the position of the date in its week.
\<close>

lemma calendar_cells_by_week_position:
  "concat (create_interactive_calendar today sel) =
     map (\<lambda>i. (today + int i, if i mod 7 < length sel then Some (sel ! (i mod 7)) else None))
         [0..<30]"
  unfolding create_interactive_calendar_def dates_weeks week_cells_def upt_30
  by (simp add: small_numerals)

text \<open>
  Claim C1.  The cell of a date carries the row at the position of the date within its
  week, not within the thirty days: with eight rows in the selection, the eighth date
  (index 7, the first day of the second week) is paired with the first row again, where
  the row of index 7 is expected.
\<close>

theorem calendar_second_week_repeats_first:
  "concat (create_interactive_calendar 0 [10, 11, 12, 13, 14, 15, 16, 17 :: nat]) ! 7
     = (7, Some 10)"
  by (simp add: calendar_cells_by_week_position upt_30)

section \<open>Masks and filters: the rows that are kept\<close>

lemma select_rows_map: "select_rows xs (map p xs) = filter p xs"
  unfolding select_rows_def by (induction xs) simp_all

lemma mask_and_map: "mask_and (map p xs) (map q xs) = map (\<lambda>x. p x \<and> q x) xs"
  unfolding mask_and_def by (simp add: map2_map_map)

lemma mask_not_map: "mask_not (map p xs) = map (\<lambda>x. \<not> p x) xs"
  unfolding mask_not_def by simp

lemma between_cell_iff: "between_cell lo hi x \<longleftrightarrow> (\<exists>y. x = Some y \<and> lo \<le> y \<and> y \<le> hi)"
  unfolding between_cell_def by (cases x) simp_all

lemma bind_result_Inr [simp]: "bind_result (Inr x) f = f x"
  unfolding bind_result_def by simp

lemma bind_result_Inl [simp]: "bind_result (Inl e) f = Inl e"
  unfolding bind_result_def by simp

lemma filtered_data_rows:
  assumes "re artist_filter = Some ma" and "re label_filter = Some ml"
    and "re track_filter = Some mt" and "re ''Various'' = Some mv"
    and "re ''Dee Jay Mix Club|Nielegal'' = Some mb"
  shows "filtered_data re catalog artist_filter (lo, hi) label_filter track_filter =
     Inr (filter (\<lambda>r. contains_cell ma (artist r) \<and> between_cell lo hi (year r)
                     \<and> contains_cell ml (label r) \<and> contains_cell mt (tracklist r)
                     \<and> \<not> contains_cell mv (artist r) \<and> \<not> contains_cell mb (label r)) catalog)"
  unfolding filtered_data_def str_contains_def between_def
  by (simp add: assms mask_and_map mask_not_map select_rows_map)

lemma filtered_data_compiles:
  assumes "filtered_data re catalog artist_filter yf label_filter track_filter = Inr res"
  shows "\<exists>ma ml mt mv mb. re artist_filter = Some ma \<and> re label_filter = Some ml
     \<and> re track_filter = Some mt \<and> re ''Various'' = Some mv
     \<and> re ''Dee Jay Mix Club|Nielegal'' = Some mb"
  using assms unfolding filtered_data_def str_contains_def bind_result_def
  by (auto split: option.splits sum.splits)

lemma discover_filter_rows:
  assumes "re ''Various'' = Some mv" and "re ''Dee Jay Mix Club|Nielegal'' = Some mb"
    and "label_filter \<noteq> [] \<Longrightarrow> re label_filter = Some ml"
  shows "discover_filter re catalog lo hi label_filter =
     Inr (filter (\<lambda>r. between_cell lo hi (year r)
                     \<and> \<not> contains_cell mv (artist r) \<and> \<not> contains_cell mb (label r)
                     \<and> (label_filter = [] \<or> contains_cell ml (label r))) catalog)"
proof (cases "label_filter = []")
  case True
  then show ?thesis
    unfolding discover_filter_def str_contains_def between_def
    by (simp add: assms(1,2) mask_and_map mask_not_map select_rows_map)
next
  case False
  have ml: "re label_filter = Some ml" using assms(3) False by simp
  show ?thesis
    unfolding discover_filter_def str_contains_def between_def
    by (auto simp add: False ml assms(1,2) mask_and_map mask_not_map select_rows_map
        intro!: filter_cong)
qed

section \<open>The literal engine on the fixed patterns\<close>

lemma contains_cell_None [simp]: "contains_cell search None = False"
  by (simp add: contains_cell_def)

lemma contains_cell_Some [simp]: "contains_cell search (Some s) = search s"
  by (simp add: contains_cell_def)

lemma contains_cell_all: "\<forall>s. search s \<Longrightarrow> contains_cell search x \<longleftrightarrow> x \<noteq> None"
  by (cases x) simp_all

lemma contains_literal_empty: "contains_literal [] s"
  by (cases s) simp_all

lemma literal_search_empty: "literal_search [] s"
  by (simp add: literal_search_def contains_literal_empty)

lemma literal_engine_empty: "literal_engine [] = Some (literal_search [])"
  by (simp add: literal_engine_def)

lemma no_special_various: "\<not> list_ex (\<lambda>c. c \<in> set special_chars) ''Various''"
  by code_simp

lemma no_special_labels: "\<not> list_ex (\<lambda>c. c \<in> set special_chars) ''Dee Jay Mix Club|Nielegal''"
  by code_simp

lemma literal_engine_various: "literal_engine ''Various'' = Some (literal_search ''Various'')"
  unfolding literal_engine_def using no_special_various by simp

lemma literal_engine_labels:
  "literal_engine ''Dee Jay Mix Club|Nielegal'' = Some (literal_search ''Dee Jay Mix Club|Nielegal'')"
  unfolding literal_engine_def using no_special_labels by simp

lemma kaliber_not_various: "\<not> literal_search ''Various'' ''Kaliber 44''"
  by code_simp

lemma gigant_not_blacklisted: "\<not> literal_search ''Dee Jay Mix Club|Nielegal'' ''Gigant Records''"
  by code_simp

lemma various_is_various: "literal_search ''Various'' ''Various''"
  by code_simp

lemma nielegal_blacklisted: "literal_search ''Dee Jay Mix Club|Nielegal'' ''Nielegal''"
  by code_simp

text \<open>
  Claim C5.  In the browse filter and in the filter of the discovery sampler, a row of the
  catalogue is kept exactly when its year is known and lies between the two bounds, both
  included, and the other predicates of that filter hold of it; so a row without a year
  is never kept.
\<close>

theorem year_range_inclusion:
  assumes "re artist_filter = Some ma" and "re label_filter = Some ml"
    and "re track_filter = Some mt" and "re ''Various'' = Some mv"
    and "re ''Dee Jay Mix Club|Nielegal'' = Some mb" and "r \<in> set catalog"
  shows "(case filtered_data re catalog artist_filter (lo, hi) label_filter track_filter of
            Inl e \<Rightarrow> False
          | Inr res \<Rightarrow>
              (r \<in> set res \<longleftrightarrow>
                 (\<exists>y. year r = Some y \<and> lo \<le> y \<and> y \<le> hi)
                 \<and> contains_cell ma (artist r) \<and> contains_cell ml (label r)
                 \<and> contains_cell mt (tracklist r)
                 \<and> \<not> contains_cell mv (artist r) \<and> \<not> contains_cell mb (label r)))
       \<and> (case discover_filter re catalog lo hi label_filter of
            Inl e \<Rightarrow> False
          | Inr sub \<Rightarrow>
              (r \<in> set sub \<longleftrightarrow>
                 (\<exists>y. year r = Some y \<and> lo \<le> y \<and> y \<le> hi)
                 \<and> \<not> contains_cell mv (artist r) \<and> \<not> contains_cell mb (label r)
                 \<and> (label_filter = [] \<or> contains_cell ml (label r))))"
proof -
  have fd: "filtered_data re catalog artist_filter (lo, hi) label_filter track_filter =
     Inr (filter (\<lambda>r. contains_cell ma (artist r) \<and> between_cell lo hi (year r)
                     \<and> contains_cell ml (label r) \<and> contains_cell mt (tracklist r)
                     \<and> \<not> contains_cell mv (artist r) \<and> \<not> contains_cell mb (label r)) catalog)"
    by (rule filtered_data_rows [OF assms(1-5)])
  have df: "discover_filter re catalog lo hi label_filter =
     Inr (filter (\<lambda>r. between_cell lo hi (year r)
                     \<and> \<not> contains_cell mv (artist r) \<and> \<not> contains_cell mb (label r)
                     \<and> (label_filter = [] \<or> contains_cell ml (label r))) catalog)"
    by (rule discover_filter_rows [OF assms(4,5)]) (rule assms(2))
  have a: "r \<in> set (filter P catalog) \<longleftrightarrow> P r" for P
    using assms(6) by simp
  show ?thesis
    unfolding fd df sum.case a between_cell_iff by blast
qed

lemma kaliber_fields:
  "artist kaliber = Some ''Kaliber 44''" "label kaliber = Some ''Gigant Records''"
  "year kaliber = Some 1999" "tracklist kaliber = Some ''Intro|Konfrontacje''"
  "track_count kaliber = Some 18"
  by (simp_all add: kaliber_def)


lemma no_tracklist_fields:
  "artist no_tracklist = Some ''Kaliber 44''" "label no_tracklist = Some ''Gigant Records''"
  "year no_tracklist = Some 1999" "tracklist no_tracklist = None"
  by (simp_all add: no_tracklist_def kaliber_def)

lemma no_year_fields:
  "artist no_year = Some ''Kaliber 44''" "label no_year = Some ''Gigant Records''"
  "year no_year = None" "tracklist no_year = Some ''Intro|Konfrontacje''"
  by (simp_all add: no_year_def kaliber_def)

lemmas literal_facts =
  literal_search_empty kaliber_not_various gigant_not_blacklisted various_is_various
  nielegal_blacklisted

lemmas literal_compiled =
  filtered_data_rows [OF literal_engine_empty literal_engine_empty literal_engine_empty
    literal_engine_various literal_engine_labels]

theorem year_range_inclusion_witness:
  "kaliber \<in> set [kaliber, no_year] \<and> no_year \<in> set [kaliber, no_year]
   \<and> literal_engine [] = Some (literal_search [])
   \<and> (case filtered_data literal_engine [kaliber, no_year] [] (1991, 2024) [] [] of
         Inl e \<Rightarrow> False | Inr res \<Rightarrow> kaliber \<in> set res \<and> no_year \<notin> set res)
   \<and> (case discover_filter literal_engine [kaliber, no_year] 1991 2024 [] of
         Inl e \<Rightarrow> False | Inr sub \<Rightarrow> kaliber \<in> set sub \<and> no_year \<notin> set sub)"
proof -
  have k: "kaliber \<in> set [kaliber, no_year]" and n: "no_year \<in> set [kaliber, no_year]"
    by simp_all
  note th = year_range_inclusion [OF literal_engine_empty literal_engine_empty
    literal_engine_empty literal_engine_various literal_engine_labels]
  show ?thesis
    using th [OF k, of 1991 2024] th [OF n, of 1991 2024] literal_engine_empty
    by (auto simp add: kaliber_fields no_year_fields literal_facts split: sum.splits)
qed

lemma no_label_fields:
  "artist no_label = Some ''Kaliber 44''" "label no_label = None"
  "year no_label = Some 1999" "tracklist no_label = Some ''Intro|Konfrontacje''"
  by (simp_all add: no_label_def kaliber_def)

text \<open>
  What the browse filter computes when every text input is blank, for an engine that
  finds the empty pattern in every string: the rows that pass the two standing exclusions
  and the year range are kept only if their artist, label and track list are present.
\<close>

lemma blank_filter_rows:
  assumes "re [] = Some m0" and "\<forall>s. m0 s"
    and "re ''Various'' = Some mv" and "re ''Dee Jay Mix Club|Nielegal'' = Some mb"
  shows "filtered_data re catalog [] (lo, hi) [] [] =
     Inr (filter (\<lambda>r. artist r \<noteq> None \<and> label r \<noteq> None \<and> tracklist r \<noteq> None
                     \<and> (\<exists>y. year r = Some y \<and> lo \<le> y \<and> y \<le> hi)
                     \<and> \<not> contains_cell mv (artist r) \<and> \<not> contains_cell mb (label r)) catalog)"
proof -
  have "filter (\<lambda>r. contains_cell m0 (artist r) \<and> between_cell lo hi (year r)
                     \<and> contains_cell m0 (label r) \<and> contains_cell m0 (tracklist r)
                     \<and> \<not> contains_cell mv (artist r) \<and> \<not> contains_cell mb (label r)) catalog
      = filter (\<lambda>r. artist r \<noteq> None \<and> label r \<noteq> None \<and> tracklist r \<noteq> None
                     \<and> (\<exists>y. year r = Some y \<and> lo \<le> y \<and> y \<le> hi)
                     \<and> \<not> contains_cell mv (artist r) \<and> \<not> contains_cell mb (label r)) catalog"
    by (rule filter_cong [OF refl])
      (simp only: contains_cell_all [OF assms(2)] between_cell_iff, blast)
  then show ?thesis
    by (simp only: filtered_data_rows [OF assms(1) assms(1) assms(1) assms(3) assms(4)])
qed

lemmas discover_compiled =
  discover_filter_rows [OF literal_engine_various literal_engine_labels, of "[]", simplified]

text \<open>
  Claim C4 asks that, with every text input blank, the browse filter return exactly the
  rows that pass the two standing exclusions, a blank input matching every row.  The code
  does not do so.  Of three albums of 1999 that pass both exclusions, with the slider at
  its full range 1991 to 2024 and the three text inputs empty, the browse filter keeps the
  first only: it drops the album without a label and the album without a track list,
  because lines 112, 114 and 115 search for the empty pattern with \<^verbatim>\<open>na=False\<close>
  whatever the input holds.  The filter of the discovery sampler, which searches for the
  label only when \<^verbatim>\<open>label_filter\<close> is not empty (line 53), keeps all three under
  the same year range and the same blank label.
\<close>

theorem blank_filter_drops_rows_with_missing_text:
  "filtered_data literal_engine [kaliber, no_label, no_tracklist] [] (1991, 2024) [] []
     = Inr [kaliber]
   \<and> between_cell 1991 2024 (year no_label)
   \<and> \<not> contains_cell (literal_search ''Various'') (artist no_label)
   \<and> \<not> contains_cell (literal_search ''Dee Jay Mix Club|Nielegal'') (label no_label)
   \<and> between_cell 1991 2024 (year no_tracklist)
   \<and> \<not> contains_cell (literal_search ''Various'') (artist no_tracklist)
   \<and> \<not> contains_cell (literal_search ''Dee Jay Mix Club|Nielegal'') (label no_tracklist)
   \<and> discover_filter literal_engine [kaliber, no_label, no_tracklist] 1991 2024 []
     = Inr [kaliber, no_label, no_tracklist]"
  by (simp add: literal_compiled discover_compiled kaliber_fields no_label_fields
      no_tracklist_fields literal_facts between_cell_def)

text \<open>
  Claim C10.  Whatever the inputs, a row whose artist, label or track list is missing is
  not among the rows that the browse filter returns; this holds of blank inputs too, for
  which the filter does return (the witness).
\<close>

theorem missing_text_is_excluded:
  assumes "filtered_data re catalog artist_filter year_filter label_filter track_filter = Inr res"
    and "artist r = None \<or> label r = None \<or> tracklist r = None"
  shows "r \<notin> set res"
proof -
  obtain ma ml mt mv mb where c: "re artist_filter = Some ma" "re label_filter = Some ml"
    "re track_filter = Some mt" "re ''Various'' = Some mv"
    "re ''Dee Jay Mix Club|Nielegal'' = Some mb"
    using filtered_data_compiles [OF assms(1)] by blast
  obtain lo hi where y: "year_filter = (lo, hi)" by (cases year_filter)
  have "res = filter (\<lambda>r. contains_cell ma (artist r) \<and> between_cell lo hi (year r)
                     \<and> contains_cell ml (label r) \<and> contains_cell mt (tracklist r)
                     \<and> \<not> contains_cell mv (artist r) \<and> \<not> contains_cell mb (label r)) catalog"
    using assms(1) unfolding y filtered_data_rows [OF c] by simp
  then show ?thesis using assms(2) by auto
qed

theorem missing_text_is_excluded_witness:
  "filtered_data literal_engine [no_tracklist, kaliber] [] (1991, 2024) [] [] = Inr [kaliber]
   \<and> tracklist no_tracklist = None \<and> no_tracklist \<notin> set [kaliber]"
proof -
  have f: "filtered_data literal_engine [no_tracklist, kaliber] [] (1991, 2024) [] [] = Inr [kaliber]"
    by (simp add: literal_compiled kaliber_fields no_tracklist_fields literal_facts
        between_cell_def)
  have t: "tracklist no_tracklist = None" by (simp add: no_tracklist_fields)
  show ?thesis
    using missing_text_is_excluded [OF f, of no_tracklist] f t by simp
qed

section \<open>The discovery sampler: results\<close>

lemma rotating_numpy_fields:
  "seeded rotating_numpy r = r"
  "draw rotating_numpy g n k = (take k (rotate (g mod n) (rev [0..<n])), Suc g)"
  by (simp_all add: rotating_numpy_def)



lemma sample_rows_seeded:
  "sample_rows np g xs k (Some r) = (fst (sample_rows np g' xs k (Some r)), g)"
  unfolding sample_rows_def by simp


lemma generate_discover_list_raises:
  "discover_filter re catalog lo hi label_filter = Inl e \<Longrightarrow>
   generate_discover_list re np g catalog lo hi label_filter = (Inl e, g)"
  unfolding generate_discover_list_def by simp

lemma generate_discover_list_generator:
  "generate_discover_list re np g catalog lo hi label_filter
     = (fst (generate_discover_list re np g' catalog lo hi label_filter), g)"
  unfolding generate_discover_list_def sample_rows_def
  by (simp split: sum.splits)






lemma rotating_draw_0: "fst (draw rotating_numpy (seeded rotating_numpy 42) 0 0) = []"
  by (simp add: rotating_numpy_fields)


text \<open>
  Claim C3.  Two calls of the sampler with the same arguments return the same selection,
  in the same order.  The body seeds a generator of its own with 42 at each call: its
  value is the same whatever the state of the generator of the process, which it leaves
  as it was.  Through the cache, the second call returns the value of the first (or raises
  the same exception, which is not cached), also when a call with other arguments has come
  between them, and whatever has been drawn from the generator of the process meanwhile;
  with an empty cache the value is that of the body.
\<close>

theorem discover_list_deterministic:
  "fst (generate_discover_list re np g catalog lo hi label_filter)
     = fst (generate_discover_list re np g' catalog lo hi label_filter)
   \<and> snd (generate_discover_list re np g catalog lo hi label_filter) = g
   \<and> fst (cached_generate_discover_list re np
          (fst (snd (cached_generate_discover_list re np c g catalog lo hi label_filter)))
          g' catalog lo hi label_filter)
     = fst (cached_generate_discover_list re np c g catalog lo hi label_filter)
   \<and> fst (cached_generate_discover_list re np
          (fst (snd (cached_generate_discover_list re np
                  (fst (snd (cached_generate_discover_list re np c g catalog lo hi label_filter)))
                  g' catalog' lo' hi' label_filter')))
          g'' catalog lo hi label_filter)
     = fst (cached_generate_discover_list re np c g catalog lo hi label_filter)
   \<and> fst (cached_generate_discover_list re np (\<lambda>k. None) g catalog lo hi label_filter)
     = fst (generate_discover_list re np g catalog lo hi label_filter)"
proof -
  define body where
    "body = (\<lambda>cat l u lf. fst (generate_discover_list re np g cat l u lf))"
  have b: "generate_discover_list re np h cat l u lf = (body cat l u lf, h)" for h cat l u lf
    unfolding body_def by (rule generate_discover_list_generator)
  show ?thesis
    unfolding cached_generate_discover_list_def b
    by (auto split: option.splits sum.splits)
qed

section \<open>Loading: results\<close>

lemma py_int_raises_iff:
  "py_int s = Inl e \<longleftrightarrow> e = ValueError \<and> (s = [] \<or> \<not> list_all is_ascii_digit s)"
  unfolding py_int_def by auto

lemma convert_year_raises_iff:
  "convert_year x = Inl e \<longleftrightarrow>
     e = ValueError \<and>
     (\<exists>s. x = Some s \<and> str_isdigit (remove_commas s)
          \<and> \<not> list_all is_ascii_digit (remove_commas s))"
  unfolding convert_year_def py_int_def str_isdigit_def
  by (auto split: option.splits)

lemma convert_year_ascii_digits:
  assumes "remove_commas s \<noteq> []" and "list_all is_ascii_digit (remove_commas s)"
  shows "convert_year (Some s)
     = Inr (Some (foldl (\<lambda>acc c. 10 * acc + digit_value c) 0 (remove_commas s)))"
proof -
  have "list_all chr_isdigit (remove_commas s)"
    using assms(2) unfolding list_all_iff chr_isdigit_def by blast
  then show ?thesis
    unfolding convert_year_def py_int_def str_isdigit_def using assms by simp
qed

lemma convert_year_not_digits:
  "\<not> str_isdigit (remove_commas s) \<Longrightarrow> convert_year (Some s) = Inr None"
  unfolding convert_year_def by simp

lemma year_text: "convert_year (Some ''199x'') = Inr None"
  unfolding convert_year_def py_int_def str_isdigit_def remove_commas_def chr_isdigit_def
    is_ascii_digit_def digit_value_def
  by simp

lemma plain_year: "convert_year (Some ''1,999'') = Inr (Some 1999)"
  unfolding convert_year_def py_int_def str_isdigit_def remove_commas_def chr_isdigit_def
    is_ascii_digit_def digit_value_def
  by simp

lemma superscript_year: "convert_year (Some [CHR 0xB2]) = Inl ValueError"
  unfolding convert_year_def py_int_def str_isdigit_def remove_commas_def chr_isdigit_def
    is_ascii_digit_def
  by simp

text \<open>
  Claim C7 asks that a year that is not a number become unknown and never abort the load.
  The code does that for the texts that \<^verbatim>\<open>isdigit\<close> refuses, but not for the year
  made of the superscript two (U+00B2): \<^verbatim>\<open>isdigit\<close> accepts it, \<^verbatim>\<open>int\<close> raises
  \<^verbatim>\<open>ValueError\<close> on it, and the handler of line 40 gives up the whole file, the
  well-formed line before it included.
\<close>

theorem superscript_year_aborts_load:
  "load_data [plain_row] = Inr [kaliber]
   \<and> str_isdigit (remove_commas [CHR 0xB2])
   \<and> convert_year (Some [CHR 0xB2]) = Inl ValueError
   \<and> load_data [plain_row, superscript_row] = Inl ValueError"
  unfolding load_data_def plain_row_def superscript_row_def
  by (simp add: plain_year superscript_year with_year_def kaliber_def str_isdigit_def
      remove_commas_def chr_isdigit_def)

section \<open>Statistics: results\<close>













section \<open>The catalogue across the tabs: results\<close>






end
